theory Spec2Isabelle
  imports Complex_Main "HOL-Library.Word"
begin

section \<open>Cardiomyocyte helper functions: a shallow embedding\<close>

text \<open>
  The functions of \<^verbatim>\<open>cardiomyocytes_helper_functions.py\<close> are translated one by one.
  Python floats are idealised as reals (\<^verbatim>\<open>math.pi\<close> is \<open>pi\<close>), a value that may be
  \<^verbatim>\<open>nan\<close> is a \<open>real option\<close> with \<open>None\<close> for \<^verbatim>\<open>nan\<close>, and a \<^verbatim>\<open>uint8\<close> pixel is an
  \<open>8 word\<close>. Every exception the code can raise is a value of \<open>error\<close>.
\<close>

unbundle bit_operations_syntax

datatype error = UnboundLocalError | IndexError | ValueError

subsection \<open>Perpendicularity index\<close>

text \<open>
  \<^verbatim>\<open>
  def calculate_perpendicular_index(alpha, beta):
      angle_between_lines = abs(alpha - beta)
      if angle_between_lines > math.pi:
          angle_between_lines = angle_between_lines - math.pi
      if angle_between_lines > (math.pi/2):
          angle_between_lines = math.pi/2 - (angle_between_lines - math.pi/2)
      M = angle_between_lines/(math.pi/2)
      return M
  \<close>
\<close>

definition calculate_perpendicular_index :: "real \<Rightarrow> real \<Rightarrow> real" where
  "calculate_perpendicular_index alpha beta =
     (let angle_between_lines = \<bar>alpha - beta\<bar>;
          angle_between_lines =
            (if angle_between_lines > pi then angle_between_lines - pi
             else angle_between_lines);
          angle_between_lines =
            (if angle_between_lines > pi / 2 then pi / 2 - (angle_between_lines - pi / 2)
             else angle_between_lines);
          M = angle_between_lines / (pi / 2)
      in M)"

subsection \<open>Edge orientations\<close>

text \<open>
  \<^verbatim>\<open>np.arctan2(y, x)\<close> is numpy's; on reals it is the angle in \<open>(- pi, pi]\<close> of the
  point \<open>(x, y)\<close>, and 0 at the origin.
\<close>

definition arctan2 :: "real \<Rightarrow> real \<Rightarrow> real" where
  "arctan2 y x =
     (if 0 < x then arctan (y / x)
      else if x < 0 then (if 0 \<le> y then arctan (y / x) + pi else arctan (y / x) - pi)
      else if 0 < y then pi / 2
      else if y < 0 then - (pi / 2)
      else 0)"

text \<open>
  \<^verbatim>\<open>
  def calculate_orientation(point1, point2):
      dx = point2[0] - point1[0]
      dy = point2[1] - point1[1]
      return np.arctan2(dy, dx)
  \<close>
\<close>

definition calculate_orientation :: "real \<times> real \<Rightarrow> real \<times> real \<Rightarrow> real" where
  "calculate_orientation point1 point2 =
     (let dx = fst point2 - fst point1;
          dy = snd point2 - snd point1
      in arctan2 dy dx)"

text \<open>
  \<^verbatim>\<open>
  def orientations_from_vertices(vert):
      my_rad_list = []
      for i in range(len(vert)):
          p0 = vert[i,:]
          if i == (len(vert)-1):
              p1 = vert[0,:]
          else:
              p1= vert[i+1,:]
          p0 = [p0[1],p0[0]]
          p1 = [p1[1],p1[0]]
          my_rad = calculate_orientation(p1,p0)
          my_rad_list.append(my_rad)
      return my_rad_list
  \<close>
  The vertex array has one (row, column) pair per row. Every index read in the loop is
  in range.
\<close>

definition orientations_from_vertices :: "(real \<times> real) list \<Rightarrow> real list" where
  "orientations_from_vertices vert =
     map (\<lambda>i.
            let p0 = vert ! i;
                p1 = (if i = length vert - 1 then vert ! 0 else vert ! (i + 1));
                p0 = (snd p0, fst p0);
                p1 = (snd p1, fst p1);
                my_rad = calculate_orientation p1 p0
            in my_rad)
         [0..<length vert]"

text \<open>
  The edge orientation as the specification words it, for comparison with the code: the
  angle of the displacement from vertex \<open>i\<close> to vertex \<open>i + 1\<close> (wrapping to vertex 0),
  with the column as x and the row as y.
\<close>

definition spec_edge_orientation :: "(real \<times> real) list \<Rightarrow> nat \<Rightarrow> real" where
  "spec_edge_orientation vert i =
     (let p = vert ! i;
          q = vert ! ((i + 1) mod length vert)
      in arctan2 (fst q - fst p) (snd q - snd p))"

subsection \<open>Images\<close>

text \<open>
  A two-dimensional array of a given shape \<open>(rows, columns)\<close> is modelled by its pixel
  function: the value at \<open>(r, c)\<close> for \<open>r < rows\<close> and \<open>c < columns\<close>. The shape is passed
  beside it where the code reads it. A numpy expression over whole arrays becomes the
  same expression at every pixel. The operations of scikit-image and scipy that the
  module calls are not part of it; they are parameters of the model and return images
  of the shape of their argument.
\<close>

type_synonym pixel = "nat \<times> nat"
type_synonym 'a image = "pixel \<Rightarrow> 'a"
type_synonym uint8 = "8 word"

definition pixels :: "nat \<times> nat \<Rightarrow> pixel list" where
  "pixels im_shape =
     concat (map (\<lambda>r. map (\<lambda>c. (r, c)) [0..<snd im_shape]) [0..<fst im_shape])"

subsection \<open>Mask builder\<close>

text \<open>
  A polygon is a numpy array of vertex coordinates: its shape and its flat data.
  \<^verbatim>\<open>len(poly.shape)\<close> is the number of dimensions of the array.
\<close>

datatype vertex_array = VertexArray (arr_shape: "nat list") (arr_data: "real list")

text \<open>
  The two rasterizers of \<^verbatim>\<open>skimage.draw\<close>: \<open>polygon\<close> stands for the call
  \<^verbatim>\<open>polygon(poly[:,1], poly[:,2], shape=im_shape)\<close>, which returns pixel coordinates or
  raises; \<open>polygon2mask\<close> for \<^verbatim>\<open>polygon2mask(im_shape, poly)\<close>, which returns a boolean
  image.
\<close>

record rasterizer =
  polygon :: "vertex_array \<Rightarrow> nat \<times> nat \<Rightarrow> error + (nat list \<times> nat list)"
  polygon2mask :: "nat \<times> nat \<Rightarrow> vertex_array \<Rightarrow> bool image"

text \<open>
  The state of the loop: the array \<^verbatim>\<open>mask\<close> and the local variable \<^verbatim>\<open>mask_single\<close>,
  which is unbound (\<open>None\<close>) until the 2D branch assigns it.
\<close>

record mask_state =
  mask :: "uint8 image"
  mask_single :: "bool image option"

text \<open>
  The two assignments that end the loop body, for polygon number \<open>i\<close> and a boolean
  image \<open>ms\<close>:
  \<^verbatim>\<open>
      mask[mask_single] = mask[mask_single] + (i+1)
      mask[mask > (i+1)] = 255
  \<close>
  The array is \<^verbatim>\<open>uint8\<close>, so the sum is taken modulo 256; the comparison is between
  the pixel value and the Python integer \<open>i + 1\<close>.
\<close>

definition accumulate :: "nat \<Rightarrow> bool image \<Rightarrow> uint8 image \<Rightarrow> uint8 image" where
  "accumulate i ms m =
     (let m1 = (\<lambda>p. if ms p then m p + of_nat (i + 1) else m p);
          m2 = (\<lambda>p. if i + 1 < unat (m1 p) then 255 else m1 p)
      in m2)"

text \<open>
  One iteration of
  \<^verbatim>\<open>
      for i,poly in enumerate(vertices_polygons):
          if len(poly.shape) > 2:
              mask_coord = polygon(vertices_polygons[i][:,1],vertices_polygons[i][:,2],shape=im_shape)
          else:
              mask_single = polygon2mask(im_shape,vertices_polygons[i])
          mask[mask_single] = mask[mask_single] + (i+1)
          mask[mask > (i+1)] = 255
  \<close>
  The 3D branch binds \<^verbatim>\<open>mask_coord\<close>, which is never read, and leaves \<^verbatim>\<open>mask_single\<close> as
  it was. Reading \<^verbatim>\<open>mask_single\<close> while it is unbound raises \<^verbatim>\<open>UnboundLocalError\<close>.
\<close>

definition mask_step ::
  "rasterizer \<Rightarrow> nat \<times> nat \<Rightarrow> nat \<Rightarrow> vertex_array \<Rightarrow> mask_state \<Rightarrow> error + mask_state" where
  "mask_step lib im_shape i poly st =
     (case (if length (arr_shape poly) > 2
            then (case polygon lib poly im_shape of
                    Inl e \<Rightarrow> Inl e
                  | Inr mask_coord \<Rightarrow> Inr (mask_single st))
            else Inr (Some (polygon2mask lib im_shape poly))) of
        Inl e \<Rightarrow> Inl e
      | Inr None \<Rightarrow> Inl UnboundLocalError
      | Inr (Some ms) \<Rightarrow>
          Inr \<lparr>mask = accumulate i ms (mask st), mask_single = Some ms\<rparr>)"

fun mask_loop ::
  "rasterizer \<Rightarrow> nat \<times> nat \<Rightarrow> nat \<Rightarrow> vertex_array list \<Rightarrow> mask_state \<Rightarrow> error + mask_state" where
  "mask_loop lib im_shape i [] st = Inr st"
| "mask_loop lib im_shape i (poly # polys) st =
     (case mask_step lib im_shape i poly st of
        Inl e \<Rightarrow> Inl e
      | Inr st' \<Rightarrow> mask_loop lib im_shape (i + 1) polys st')"

text \<open>
  \<^verbatim>\<open>
  def create_mask_from_shapes(vertices_polygons, im_shape):
      mask = np.zeros(im_shape).astype('uint8')
      for i,poly in enumerate(vertices_polygons):
          ...
      mask_shapes_overlap = mask
      mask_shapes = mask_shapes_overlap.copy()
      mask_shapes[mask_shapes == 255] = 0
      return mask_shapes_overlap,mask_shapes
  \<close>
\<close>

definition create_mask_from_shapes ::
  "rasterizer \<Rightarrow> vertex_array list \<Rightarrow> nat \<times> nat \<Rightarrow> error + (uint8 image \<times> uint8 image)" where
  "create_mask_from_shapes lib vertices_polygons im_shape =
     (case mask_loop lib im_shape 0 vertices_polygons
             \<lparr>mask = (\<lambda>p. 0), mask_single = None\<rparr> of
        Inl e \<Rightarrow> Inl e
      | Inr st \<Rightarrow>
          let mask_shapes_overlap = mask st;
              mask_shapes = (\<lambda>p. if mask_shapes_overlap p = 255 then 0
                                 else mask_shapes_overlap p)
          in Inr (mask_shapes_overlap, mask_shapes))"

text \<open>
  For the examples: a rasterizer for polygons that cover the whole image (such as a
  square drawn around a one-pixel image), whose \<open>polygon\<close> call returns normally.
\<close>

definition covering :: rasterizer where
  "covering = \<lparr>polygon = (\<lambda>poly im_shape. Inr ([], [])),
               polygon2mask = (\<lambda>im_shape poly p. True)\<rparr>"

definition square2d :: vertex_array where
  "square2d = VertexArray [4, 2] [-1, -1, -1, 2, 2, 2, 2, -1]"

definition square3d :: vertex_array where
  "square3d = VertexArray [1, 4, 3] [0, -1, -1, 0, -1, 2, 0, 2, 2, 0, 2, -1]"







subsection \<open>Interior points\<close>

text \<open>
  \<^verbatim>\<open>np.linspace(start, stop, num)\<close>: \<open>num\<close> evenly spaced samples, both ends included.
\<close>

definition linspace :: "real \<Rightarrow> real \<Rightarrow> nat \<Rightarrow> real list" where
  "linspace start stop num =
     (if num = 1 then [start]
      else map (\<lambda>k. start + real k * ((stop - start) / real (num - 1))) [0..<num])"

text \<open>\<^verbatim>\<open>astype(int)\<close> on a float truncates towards zero.\<close>

definition astype_int :: "real \<Rightarrow> int" where
  "astype_int x = (if 0 \<le> x then \<lfloor>x\<rfloor> else \<lceil>x\<rceil>)"

text \<open>
  \<^verbatim>\<open>
  def sk_line_profile_coordinates(src, dst, linewidth=1):
      src_row, src_col = src = np.asarray(src, dtype=float)
      dst_row, dst_col = dst = np.asarray(dst, dtype=float)
      d_row, d_col = dst - src
      theta = np.arctan2(d_row, d_col)
      length = int(np.ceil(np.hypot(d_row, d_col) + 1))
      line_col = np.linspace(src_col, dst_col, length)
      line_row = np.linspace(src_row, dst_row, length)
      col_width = (linewidth - 1) * np.sin(-theta) / 2
      row_width = (linewidth - 1) * np.cos(theta) / 2
      perp_rows = np.stack([np.linspace(row_i - row_width, row_i + row_width,
                                        linewidth) for row_i in line_row])
      perp_cols = np.stack([np.linspace(col_i - col_width, col_i + col_width,
                                        linewidth) for col_i in line_col])
      return np.stack([perp_rows, perp_cols])
  \<close>
  The result is the pair of the two stacked arrays, each with one row of \<open>linewidth\<close>
  values per sample along the line.
\<close>

definition sk_line_profile_coordinates ::
  "real \<times> real \<Rightarrow> real \<times> real \<Rightarrow> nat \<Rightarrow> real list list \<times> real list list" where
  "sk_line_profile_coordinates src dst linewidth =
     (let src_row = fst src; src_col = snd src;
          dst_row = fst dst; dst_col = snd dst;
          d_row = dst_row - src_row; d_col = dst_col - src_col;
          theta = arctan2 d_row d_col;
          len = nat \<lceil>sqrt (d_row\<^sup>2 + d_col\<^sup>2) + 1\<rceil>;
          line_col = linspace src_col dst_col len;
          line_row = linspace src_row dst_row len;
          col_width = (real linewidth - 1) * sin (- theta) / 2;
          row_width = (real linewidth - 1) * cos theta / 2;
          perp_rows = map (\<lambda>row_i. linspace (row_i - row_width) (row_i + row_width) linewidth)
                        line_row;
          perp_cols = map (\<lambda>col_i. linspace (col_i - col_width) (col_i + col_width) linewidth)
                        line_col
      in (perp_rows, perp_cols))"

text \<open>
  What \<^verbatim>\<open>get_internal_points\<close> returns: a Python string or a data frame with the columns
  \<^verbatim>\<open>r, c, uniqe, layer, ord\<close>. A raised exception is not a returned value: it is the
  \<open>Inl\<close> side of the result.
\<close>

datatype py_result = PyStr string | DataFrame "(int \<times> int \<times> bool \<times> nat \<times> nat) list"

text \<open>
  \<^verbatim>\<open>
  def get_internal_points(vert,line_width=3):
      if line_width < 3:
          return 'Error - line width has to be at least 3.'
      coord_line_x = []
      coord_line_y = []
      for i in range(len(vert)):
          p0 = vert[i,:]
          if i == (len(vert)-1):
              p1 = vert[0,:]
          else:
              p1= vert[i+1,:]
          signal_segment = sk_line_profile_coordinates(p0,p1,linewidth=line_width)
          coord_line_x.extend(signal_segment[0])
          coord_line_y.extend(signal_segment[1])
      t = np.array([coord_line_x,coord_line_y]).T.astype(int)
      start_including = int(line_width/2)
      df_list = []
      for i in range(start_including,line_width):
          layer = t[i,...]
          l_unique = np.unique(layer.astype(int),axis=0,return_index=True)
          df = pd.DataFrame(layer)
          df['unique'] = False
          df['layer'] = i - start_including
          df['ord'] = df.index
          df.loc[l_unique[1],'unique'] = True
          df_list.append(df)
      df_all = pd.concat(df_list,ignore_index = True)
      df_all.columns = ['r','c','uniqe','layer','ord']
      return df_all
  \<close>
  \<open>t[i]\<close> pairs the \<open>i\<close>-th entry of every row of \<open>coord_line_x\<close> with that of
  \<open>coord_line_y\<close>. The indices that \<^verbatim>\<open>np.unique\<close> returns are those of the first occurrence
  of each row. Without vertices \<open>t\<close> is empty and \<^verbatim>\<open>t[i,...]\<close> raises \<^verbatim>\<open>IndexError\<close>.
\<close>

definition get_internal_points :: "(real \<times> real) list \<Rightarrow> int \<Rightarrow> error + py_result" where
  "get_internal_points vert line_width =
     (if line_width < 3 then Inr (PyStr ''Error - line width has to be at least 3.'')
      else
        let segments =
              map (\<lambda>i. let p0 = vert ! i;
                            p1 = (if i = length vert - 1 then vert ! 0 else vert ! (i + 1))
                        in sk_line_profile_coordinates p0 p1 (nat line_width))
                  [0..<length vert];
            coord_line_x = concat (map fst segments);
            coord_line_y = concat (map snd segments)
        in if coord_line_x = [] then Inl IndexError
           else
             let start_including = nat (line_width div 2);
                 df_list =
                   map (\<lambda>i. let layer = map2 (\<lambda>xs ys. (astype_int (xs ! i), astype_int (ys ! i)))
                                           coord_line_x coord_line_y
                             in map (\<lambda>j. (fst (layer ! j), snd (layer ! j),
                                           layer ! j \<notin> set (take j layer),
                                           i - start_including, j))
                                    [0..<length layer])
                       [start_including..<nat line_width]
             in Inr (DataFrame (concat df_list)))"

subsection \<open>Signal interpolator\<close>

text \<open>
  Arrays that the code writes in place live in a store: a list of arrays, an array being
  referred to by its position. A Python variable that holds such an array holds its
  address.
\<close>

type_synonym addr = nat
type_synonym 'a heap = "'a list"

text \<open>
  The result of \<^verbatim>\<open>.squeeze()\<close> on an array of shape \<open>(k, 1)\<close> or \<open>(k)\<close>: a zero-dimensional
  array when \<open>k = 1\<close>, a one-dimensional array otherwise.
\<close>

datatype 'a squeezed = Scalar 'a | Vector "'a list"

definition squeeze :: "'a list \<Rightarrow> 'a squeezed" where
  "squeeze xs = (case xs of [x] \<Rightarrow> Scalar x | _ \<Rightarrow> Vector xs)"

text \<open>
  \<^verbatim>\<open>np.interp(x, xp, fp)\<close> is numpy's. At one point \<open>x\<close>, with sample points \<open>xp\<close>
  (increasing) and values \<open>fp\<close>: left of the first sample point the first value, right
  of the last the last value, and between two sample points the line through them.
\<close>

definition interp_at :: "real list \<Rightarrow> real list \<Rightarrow> real \<Rightarrow> real" where
  "interp_at xp fp x =
     (if x < hd xp then hd fp
      else if last xp < x then last fp
      else
        let j = last (filter (\<lambda>j. xp ! j \<le> x) [0..<length xp])
        in if j = length xp - 1 then fp ! j
           else if xp ! j = x then fp ! j
           else (fp ! (j + 1) - fp ! j) / (xp ! (j + 1) - xp ! j) * (x - xp ! j) + fp ! j)"

text \<open>
  numpy converts \<open>xp\<close> and \<open>fp\<close> to one-dimensional arrays and raises \<^verbatim>\<open>ValueError\<close> for a
  zero-dimensional one ("object of too small depth for desired array"), for no sample
  points, and for \<open>xp\<close> and \<open>fp\<close> of different lengths. The result has the shape of \<open>x\<close>.
\<close>

definition np_interp ::
  "real squeezed \<Rightarrow> real squeezed \<Rightarrow> real squeezed \<Rightarrow> error + real squeezed" where
  "np_interp x xp fp =
     (case (xp, fp) of
        (Vector xps, Vector fps) \<Rightarrow>
          if xps = [] \<or> length xps \<noteq> length fps then Inl ValueError
          else Inr (map_squeezed (interp_at xps fps) x)
      | _ \<Rightarrow> Inl ValueError)"

text \<open>
  \<^verbatim>\<open>signal[x] = values_interp\<close>: one element for a zero-dimensional index, element by
  element for an index array.
\<close>

definition setitem :: "real option list \<Rightarrow> nat squeezed \<Rightarrow> real squeezed \<Rightarrow> real option list" where
  "setitem arr x values_interp =
     (case (x, values_interp) of
        (Scalar i, Scalar v) \<Rightarrow> arr[i := Some v]
      | (Vector idx, Vector vs) \<Rightarrow> fold (\<lambda>(i, v) a. a[i := Some v]) (zip idx vs) arr
      | _ \<Rightarrow> arr)"

text \<open>
  \<^verbatim>\<open>
  def interpolate_and_fill(signal):
      x = np.argwhere((np.isnan(signal))).squeeze()
      xp = np.argwhere(~(np.isnan(signal))).squeeze()
      fp = signal[~(np.isnan(signal))].squeeze()
      values_interp = np.interp(x,xp,fp)
      signal[x] = values_interp
      return signal
  \<close>
  The parameter \<open>signal\<close> is the address of a one-dimensional float array in the store;
  an entry \<open>None\<close> is \<^verbatim>\<open>nan\<close>. The function returns the store after the call and the
  address it returns.
\<close>

definition interpolate_and_fill ::
  "real option list heap \<Rightarrow> addr \<Rightarrow> error + (real option list heap \<times> addr)" where
  "interpolate_and_fill h signal =
     (let arr = h ! signal;
          x = squeeze (filter (\<lambda>i. arr ! i = None) [0..<length arr]);
          xp = squeeze (filter (\<lambda>i. arr ! i \<noteq> None) [0..<length arr]);
          fp = squeeze (map the (filter (\<lambda>v. v \<noteq> None) arr))
      in case np_interp (map_squeezed real x) (map_squeezed real xp) fp of
           Inl e \<Rightarrow> Inl e
         | Inr values_interp \<Rightarrow>
             let h = h[signal := setitem arr x values_interp]
             in Inr (h, signal))"

subsection \<open>Gap and overlap resolver\<close>

text \<open>
  \<^verbatim>\<open>disk(radius)\<close> of \<^verbatim>\<open>skimage.morphology\<close>: the footprint of the offsets \<open>(dr, dc)\<close> with
  \<open>dr\<^sup>2 + dc\<^sup>2 \<le> radius\<^sup>2\<close>.
\<close>

type_synonym footprint = "(int \<times> int) list"

definition disk :: "nat \<Rightarrow> footprint" where
  "disk radius =
     concat (map (\<lambda>dr. map (\<lambda>dc. (dr, dc))
                          (filter (\<lambda>dc. dr\<^sup>2 + dc\<^sup>2 \<le> (int radius)\<^sup>2)
                             [- int radius..int radius]))
                 [- int radius..int radius])"

text \<open>
  The operations of \<^verbatim>\<open>skimage.morphology\<close> and \<^verbatim>\<open>skimage.segmentation\<close> that the resolver
  calls. Each takes the shape of its argument besides the argument. (\<open>opening_op\<close> is
  \<^verbatim>\<open>opening\<close>, a reserved word here.)
\<close>

record morphology =
  binary_dilation :: "nat \<times> nat \<Rightarrow> bool image \<Rightarrow> footprint \<Rightarrow> bool image"
  binary_erosion :: "nat \<times> nat \<Rightarrow> bool image \<Rightarrow> footprint \<Rightarrow> bool image"
  opening_op :: "nat \<times> nat \<Rightarrow> bool image \<Rightarrow> footprint \<Rightarrow> bool image"
  closing :: "nat \<times> nat \<Rightarrow> bool image \<Rightarrow> footprint \<Rightarrow> bool image"
  expand_labels :: "nat \<times> nat \<Rightarrow> uint8 image \<Rightarrow> nat \<Rightarrow> uint8 image"

text \<open>\<^verbatim>\<open>np.max\<close> of a non-empty \<^verbatim>\<open>uint8\<close> image, as a Python integer.\<close>

definition np_max :: "nat \<times> nat \<Rightarrow> uint8 image \<Rightarrow> nat" where
  "np_max im_shape m = fold (\<lambda>p acc. max (unat (m p)) acc) (pixels im_shape) 0"

text \<open>\<^verbatim>\<open>np.sum(np.array(masks), axis=0)\<close>: the sum over a list of images, pixel by pixel.\<close>

definition sum_axis0 :: "int image list \<Rightarrow> int image" where
  "sum_axis0 masks = (\<lambda>p. sum_list (map (\<lambda>m. m p) masks))"

text \<open>
  The loop over the objects, for one of the two radii:
  \<^verbatim>\<open>
      for i in range(np.max(mask_shapes)):
          mask = (mask_shapes == i+1)
          mask_dilated_small = binary_dilation(mask,disk(8))
          mask_dilated_big = binary_dilation(mask,disk(10))
          mask_list_small.append(mask_dilated_small.astype(int) - mask)
          mask_list_big.append(mask_dilated_big.astype(int) - mask)
  \<close>
\<close>

definition mask_list :: "morphology \<Rightarrow> nat \<times> nat \<Rightarrow> uint8 image \<Rightarrow> nat \<Rightarrow> int image list" where
  "mask_list lib im_shape mask_shapes radius =
     map (\<lambda>i. let mask = (\<lambda>p. unat (mask_shapes p) = i + 1);
                   mask_dilated = binary_dilation lib im_shape mask (disk radius)
               in (\<lambda>p. of_bool (mask_dilated p) - of_bool (mask p)))
         [0..<np_max im_shape mask_shapes]"

text \<open>
  \<^verbatim>\<open>
      possible = np.sum(np.array(mask_list_big),axis=0)>1
      t = np.logical_and(np.array(mask_list_small),possible)
      passages = np.sum(np.array(t),axis=0)
  \<close>
\<close>

definition possible :: "morphology \<Rightarrow> nat \<times> nat \<Rightarrow> uint8 image \<Rightarrow> bool image" where
  "possible lib im_shape mask_shapes =
     (\<lambda>p. 1 < sum_axis0 (mask_list lib im_shape mask_shapes 10) p)"

definition passages :: "morphology \<Rightarrow> nat \<times> nat \<Rightarrow> uint8 image \<Rightarrow> int image" where
  "passages lib im_shape mask_shapes =
     (let t = map (\<lambda>m. (\<lambda>p. m p \<noteq> 0 \<and> possible lib im_shape mask_shapes p))
                  (mask_list lib im_shape mask_shapes 8)
      in sum_axis0 (map (\<lambda>m. (\<lambda>p. of_bool (m p))) t))"

text \<open>
  \<^verbatim>\<open>
      mask_to_trim = ((mask_shapes_overlap > 0) | (passages > 1))
      mask_trimmed = ((opening(mask_to_trim,disk(10))) | (mask_shapes_overlap)>0)
      mask_trimmed = ((binary_erosion(mask_trimmed,disk(5))) | (mask_shapes_overlap)>0)
      mask_trimmed = ((closing(mask_trimmed,disk(2))) | (mask_shapes_overlap)>0)
  \<close>
  In Python \<^verbatim>\<open>|\<close> binds tighter than \<^verbatim>\<open>>\<close>: the last three lines compare with 0 the
  bitwise or of a boolean image and the \<^verbatim>\<open>uint8\<close> mask.
\<close>

definition mask_trimmed ::
  "morphology \<Rightarrow> nat \<times> nat \<Rightarrow> uint8 image \<Rightarrow> uint8 image \<Rightarrow> bool image" where
  "mask_trimmed lib im_shape mask_shapes_overlap mask_shapes =
     (let mask_to_trim =
            (\<lambda>p. 0 < mask_shapes_overlap p \<or> 1 < passages lib im_shape mask_shapes p);
          mask_trimmed =
            (\<lambda>p. 0 < (of_bool (opening_op lib im_shape mask_to_trim (disk 10) p)
                        OR mask_shapes_overlap p));
          mask_trimmed =
            (\<lambda>p. 0 < (of_bool (binary_erosion lib im_shape mask_trimmed (disk 5) p)
                        OR mask_shapes_overlap p));
          mask_trimmed =
            (\<lambda>p. 0 < (of_bool (closing lib im_shape mask_trimmed (disk 2) p)
                        OR mask_shapes_overlap p))
      in mask_trimmed)"

text \<open>
  \<^verbatim>\<open>
  def fill_gaps_between_cells(mask_shapes_overlap):
      mask_shapes = mask_shapes_overlap.copy()
      mask_shapes[mask_shapes == 255] = 0
      mask_list_small = []
      mask_list_big = []
      for i in range(np.max(mask_shapes)):
          ...
      possible = ...
      ...
      mask_trimmed = ((closing(mask_trimmed,disk(2))) | (mask_shapes_overlap)>0)
      to_divide = mask_trimmed.astype(int) - (mask_shapes_overlap > 0).astype(int) + (mask_shapes_overlap==255).astype(int)
      im_divided = expand_labels(mask_shapes,250)*(to_divide).astype(int)
      return im_divided
  \<close>
  The parameter is the address of a \<^verbatim>\<open>uint8\<close> image in the store, and \<open>im_shape\<close> is the
  shape of that image. \<^verbatim>\<open>.copy()\<close> allocates a new array, which the next line writes in
  place. The other arrays are fresh values that nothing else refers to. \<^verbatim>\<open>np.max\<close> of an
  image without pixels raises \<^verbatim>\<open>ValueError\<close>. The function returns the store after the
  call and the new array \<open>im_divided\<close>.
\<close>

definition fill_gaps_between_cells ::
  "morphology \<Rightarrow> nat \<times> nat \<Rightarrow> uint8 image heap \<Rightarrow> addr \<Rightarrow> error + (uint8 image heap \<times> int image)" where
  "fill_gaps_between_cells lib im_shape h mask_shapes_overlap =
     (let mask_shapes = length h;
          h = h @ [h ! mask_shapes_overlap];
          h = h[mask_shapes := (\<lambda>p. if (h ! mask_shapes) p = 255 then 0 else (h ! mask_shapes) p)]
      in if pixels im_shape = [] then Inl ValueError
         else
           let trimmed = mask_trimmed lib im_shape (h ! mask_shapes_overlap) (h ! mask_shapes);
               to_divide = (\<lambda>p. of_bool (trimmed p)
                                  - of_bool (0 < (h ! mask_shapes_overlap) p)
                                  + of_bool ((h ! mask_shapes_overlap) p = 255));
               im_divided = (\<lambda>p. uint (expand_labels lib im_shape (h ! mask_shapes) 250 p)
                                   * to_divide p)
           in Inr (h, im_divided))"

text \<open>
  The hypothesis of a mask without narrow gaps, in the words of the specification: no
  pixel lies in the 8 px ring of a region and also in the 10 px rings of two or more
  regions. The regions are those of the mask with its sentinel pixels set to 0.
\<close>

definition narrow_gap :: "morphology \<Rightarrow> nat \<times> nat \<Rightarrow> uint8 image \<Rightarrow> pixel \<Rightarrow> bool" where
  "narrow_gap lib im_shape mask_shapes_overlap p =
     (let mask_shapes = (\<lambda>q. if mask_shapes_overlap q = 255 then 0 else mask_shapes_overlap q)
      in list_ex (\<lambda>m. m p \<noteq> 0) (mask_list lib im_shape mask_shapes 8)
         \<and> 1 < sum_axis0 (mask_list lib im_shape mask_shapes 10) p)"

text \<open>
  Modelled from the spec: the morphological primitives and the label expansion are
  external (section 6: "standard set-based image morphology contracts", "nearest-label
  propagation up to a max distance"). For concrete examples they are given their
  standard definitions on the pixels of the image: a pixel is in the dilation when the
  footprint, centred there, meets the set; in the erosion when the part of the footprint
  inside the image lies in the set; opening is erosion then dilation, closing is
  dilation then erosion; label expansion gives a background pixel the label of the
  nearest labelled pixel within the distance.
\<close>

definition in_image :: "nat \<times> nat \<Rightarrow> pixel \<Rightarrow> bool" where
  "in_image im_shape p \<longleftrightarrow> fst p < fst im_shape \<and> snd p < snd im_shape"

definition shifted :: "nat \<times> nat \<Rightarrow> pixel \<Rightarrow> int \<times> int \<Rightarrow> pixel option" where
  "shifted im_shape p d =
     (let r = int (fst p) + fst d; c = int (snd p) + snd d
      in if 0 \<le> r \<and> r < int (fst im_shape) \<and> 0 \<le> c \<and> c < int (snd im_shape)
         then Some (nat r, nat c) else None)"

definition std_dilation :: "nat \<times> nat \<Rightarrow> bool image \<Rightarrow> footprint \<Rightarrow> bool image" where
  "std_dilation im_shape img fp =
     (\<lambda>p. in_image im_shape p
          \<and> list_ex (\<lambda>d. case shifted im_shape p (- fst d, - snd d) of
                            None \<Rightarrow> False
                          | Some q \<Rightarrow> img q) fp)"

definition std_erosion :: "nat \<times> nat \<Rightarrow> bool image \<Rightarrow> footprint \<Rightarrow> bool image" where
  "std_erosion im_shape img fp =
     (\<lambda>p. in_image im_shape p
          \<and> list_all (\<lambda>d. case shifted im_shape p d of
                             None \<Rightarrow> True
                           | Some q \<Rightarrow> img q) fp)"

definition sq_dist :: "pixel \<Rightarrow> pixel \<Rightarrow> int" where
  "sq_dist p q = (int (fst p) - int (fst q))\<^sup>2 + (int (snd p) - int (snd q))\<^sup>2"

definition std_expand_labels :: "nat \<times> nat \<Rightarrow> uint8 image \<Rightarrow> nat \<Rightarrow> uint8 image" where
  "std_expand_labels im_shape label_image distance =
     (\<lambda>p. if \<not> in_image im_shape p then 0
          else if label_image p \<noteq> 0 then label_image p
          else
            let near = filter (\<lambda>q. label_image q \<noteq> 0 \<and> sq_dist p q \<le> (int distance)\<^sup>2)
                         (pixels im_shape)
            in if near = [] then 0 else label_image (arg_min_list (sq_dist p) near))"

definition std_morphology :: morphology where
  "std_morphology =
     \<lparr>binary_dilation = std_dilation,
      binary_erosion = std_erosion,
      opening_op = (\<lambda>im_shape img fp. std_dilation im_shape (std_erosion im_shape img fp) fp),
      closing = (\<lambda>im_shape img fp. std_erosion im_shape (std_dilation im_shape img fp) fp),
      expand_labels = std_expand_labels\<rparr>"

text \<open>
  Example masks. A 5 by 5 image that one region, labelled 1, fills except for its centre
  pixel.
\<close>

definition holed :: "uint8 image" where
  "holed = (\<lambda>p. if fst p < 5 \<and> snd p < 5 \<and> p \<noteq> (2, 2) then 1 else 0)"


text \<open>
  A 1 by 24 mask with two regions of one pixel each, at the two ends, and 22 background
  pixels between them: too far apart for the 10 px rings of the two regions to meet.
\<close>

definition two_cells :: "uint8 image" where
  "two_cells = (\<lambda>p. if p = (0, 0) then 1 else if p = (0, 23) then 2 else 0)"

subsection \<open>Angular ring partitioner\<close>

text \<open>
  The two library calls of the partitioner: \<open>erosion\<close> is \<^verbatim>\<open>skimage.morphology.erosion\<close>
  on an integer image; \<open>kmeans_labels k points\<close> stands for
  \<^verbatim>\<open>KMeans(n_clusters=k).fit(points).labels_\<close>, one cluster number below \<open>k\<close> for every
  point, or the error it raises (for fewer points than clusters, for instance). K-means
  starts from a random initialisation: each of its outcomes is one such function.
\<close>

record clustering =
  erosion :: "nat \<times> nat \<Rightarrow> int image \<Rightarrow> footprint \<Rightarrow> int image"
  kmeans_labels :: "nat \<Rightarrow> pixel list \<Rightarrow> error + nat list"

text \<open>
  \<^verbatim>\<open>np.array(np.nonzero(img)).T\<close>: the coordinates of the non-zero pixels, in row-major
  order.
\<close>

definition nonzero :: "nat \<times> nat \<Rightarrow> int image \<Rightarrow> pixel list" where
  "nonzero im_shape img = filter (\<lambda>p. img p \<noteq> 0) (pixels im_shape)"

text \<open>\<^verbatim>\<open>np.mean\<close> of a column: \<^verbatim>\<open>nan\<close> (\<open>None\<close>) when no row is selected.\<close>

definition np_mean :: "real list \<Rightarrow> real option" where
  "np_mean xs = (if xs = [] then None else Some (sum_list xs / real (length xs)))"

text \<open>
  \<^verbatim>\<open>
      for i in range(segment_number):
          center_point = np.mean(points_array[clustering.labels_==i,:],axis=0)
          center_point_list.append(center_point)
  \<close>
\<close>

definition center_points ::
  "pixel list \<Rightarrow> nat list \<Rightarrow> nat \<Rightarrow> (real option \<times> real option) list" where
  "center_points points_array labels segment_number =
     map (\<lambda>i. let sel = map fst (filter (\<lambda>q. snd q = i) (zip points_array labels))
               in (np_mean (map (\<lambda>p. real (fst p)) sel), np_mean (map (\<lambda>p. real (snd p)) sel)))
         [0..<segment_number]"

text \<open>
  One entry of \<^verbatim>\<open>distance_matrix(points_array, center_point_array)\<close>: the Euclidean
  distance, \<^verbatim>\<open>nan\<close> when the centre is.
\<close>

definition euclid :: "pixel \<Rightarrow> real option \<times> real option \<Rightarrow> real option" where
  "euclid p c =
     (case c of
        (Some cr, Some cc) \<Rightarrow> Some (sqrt ((real (fst p) - cr)\<^sup>2 + (real (snd p) - cc)\<^sup>2))
      | _ \<Rightarrow> None)"

text \<open>
  \<^verbatim>\<open>np.argmin\<close> of a row: the index of the first smallest entry, where \<^verbatim>\<open>nan\<close> counts as
  smaller than every number. \<open>argmin_from best bv i ds\<close> scans \<open>ds\<close>, whose first entry
  has index \<open>i\<close>, with the best index and value so far.
\<close>

definition less_nan :: "real option \<Rightarrow> real option \<Rightarrow> bool" where
  "less_nan d bv =
     (case bv of
        None \<Rightarrow> False
      | Some b \<Rightarrow> (case d of None \<Rightarrow> True | Some a \<Rightarrow> a < b))"

fun argmin_from :: "nat \<Rightarrow> real option \<Rightarrow> nat \<Rightarrow> real option list \<Rightarrow> nat" where
  "argmin_from best bv i [] = best"
| "argmin_from best bv i (d # ds) =
     (if less_nan d bv then argmin_from i d (i + 1) ds
      else argmin_from best bv (i + 1) ds)"

definition np_argmin :: "real option list \<Rightarrow> nat" where
  "np_argmin ds = (case ds of [] \<Rightarrow> 0 | d # ds' \<Rightarrow> argmin_from 0 d 1 ds')"

text \<open>
  A row of the data frame \<^verbatim>\<open>centroid_array\<close>: the columns \<^verbatim>\<open>x\<close>, \<^verbatim>\<open>y\<close>, \<^verbatim>\<open>set\<close> and
  \<^verbatim>\<open>centroid_angle\<close>; \<open>None\<close> is a row of \<^verbatim>\<open>nan\<close>, the mean over no points.
  \<^verbatim>\<open>
      centroid_array = pd.DataFrame([np.mean(points_array[points_array[:,2]==x,:],axis=0) for x in range(segment_number)],columns=['x','y','set'])
      centroid_array['centroid_angle'] = [np.arctan2(x-cell_center[1],y-cell_center[0]) for x,y in zip(centroid_array.loc[:,'x'],centroid_array.loc[:,'y'])]
      centroid_array.loc[centroid_array.centroid_angle<0,'centroid_angle'] = centroid_array.loc[centroid_array.centroid_angle<0,'centroid_angle'] + 2*np.pi
  \<close>
  A point of \<open>points_array\<close> is a pixel with its cluster number. Column \<^verbatim>\<open>x\<close> is the mean
  row and column \<^verbatim>\<open>y\<close> the mean column.
\<close>

type_synonym centroid_row = "(real \<times> real \<times> real \<times> real) option"

definition centroid_rows :: "real \<times> real \<Rightarrow> (pixel \<times> nat) list \<Rightarrow> nat \<Rightarrow> centroid_row list" where
  "centroid_rows cell_center points_array segment_number =
     map (\<lambda>x. let sel = filter (\<lambda>q. snd q = x) points_array
               in if sel = [] then None
                  else
                    let mx = sum_list (map (\<lambda>q. real (fst (fst q))) sel) / real (length sel);
                        my = sum_list (map (\<lambda>q. real (snd (fst q))) sel) / real (length sel);
                        ms = sum_list (map (\<lambda>q. real (snd q)) sel) / real (length sel);
                        centroid_angle = arctan2 (mx - snd cell_center) (my - fst cell_center);
                        centroid_angle = (if centroid_angle < 0 then centroid_angle + 2 * pi
                                          else centroid_angle)
                    in Some (mx, my, ms, centroid_angle))
         [0..<segment_number]"

text \<open>
  \<^verbatim>\<open>centroid_array.sort_values('centroid_angle',ignore_index=True)\<close>: ascending, the
  \<^verbatim>\<open>nan\<close> rows last, the index renumbered. pandas does not fix the order of rows with
  equal angles; here they keep their order.
\<close>

definition sort_values :: "centroid_row list \<Rightarrow> centroid_row list" where
  "sort_values rows =
     map Some (sort_key (\<lambda>r. snd (snd (snd r))) (map the (filter (\<lambda>r. r \<noteq> None) rows)))
     @ filter (\<lambda>r. r = None) rows"

text \<open>
  \<^verbatim>\<open>centroid_array.loc[centroid_array.set == x,:].index[0]\<close>: the index of the first row
  whose \<^verbatim>\<open>set\<close> is \<open>x\<close>; \<^verbatim>\<open>IndexError\<close> when there is none.
\<close>

fun first_index :: "('a \<Rightarrow> bool) \<Rightarrow> 'a list \<Rightarrow> nat option" where
  "first_index P [] = None"
| "first_index P (y # ys) = (if P y then Some 0 else map_option Suc (first_index P ys))"

definition set_is :: "nat \<Rightarrow> centroid_row \<Rightarrow> bool" where
  "set_is x r = (case r of None \<Rightarrow> False | Some row \<Rightarrow> fst (snd (snd row)) = real x)"

text \<open>
  \<^verbatim>\<open>
  def divide_cell_outside_ring(cell_image,cell_center,ring_thickness,segment_number):
      eroded_image_1 = erosion(cell_image,disk(int(ring_thickness)))
      eroded_image_2 = erosion(eroded_image_1,disk(1))
      seed_perim_image = eroded_image_1.astype(int) - eroded_image_2.astype(int)
      t = np.nonzero(seed_perim_image)
      points_array = np.array(t).T
      clustering = KMeans(n_clusters=segment_number).fit(points_array)
      center_point_list = []
      for i in range(segment_number):
          ...
      center_point_array = np.array(center_point_list)
      eroded_image = erosion(cell_image,disk(ring_thickness))
      image_ring = cell_image - eroded_image.astype(int)
      t = np.nonzero(image_ring)
      points_array = np.array(t).T
      dist_mat = distance_matrix(points_array,center_point_array)
      cluster_identity = np.argmin(dist_mat,axis=1)
      cluster_identity = np.expand_dims(cluster_identity,axis=1)
      points_array = np.concatenate((points_array,cluster_identity),axis=1)
      centroid_array = ...
      centroid_array = centroid_array.sort_values('centroid_angle',ignore_index=True)
      points_array[:,2] = [centroid_array.loc[centroid_array.set == x,:].index[0] for x in points_array[:,2]]
      return points_array
  \<close>
  The ring thickness is a natural number, and \<open>im_shape\<close> is the shape of \<open>cell_image\<close>.
  Without clusters there is no distance matrix to take the minimum in: with
  \<open>segment_number = 0\<close> the call raises \<^verbatim>\<open>ValueError\<close> (at the latest in \<^verbatim>\<open>distance_matrix\<close>).
  The result has one row \<open>(row, column, segment)\<close> per point.
\<close>

definition divide_cell_outside_ring ::
  "clustering \<Rightarrow> nat \<times> nat \<Rightarrow> int image \<Rightarrow> real \<times> real \<Rightarrow> nat \<Rightarrow> nat
     \<Rightarrow> error + (nat \<times> nat \<times> nat) list" where
  "divide_cell_outside_ring lib im_shape cell_image cell_center ring_thickness segment_number =
     (let eroded_image_1 = erosion lib im_shape cell_image (disk ring_thickness);
          eroded_image_2 = erosion lib im_shape eroded_image_1 (disk 1);
          seed_perim_image = (\<lambda>p. eroded_image_1 p - eroded_image_2 p);
          points_array = nonzero im_shape seed_perim_image
      in case kmeans_labels lib segment_number points_array of
           Inl e \<Rightarrow> Inl e
         | Inr labels \<Rightarrow>
             if segment_number = 0 then Inl ValueError
             else
               let center_point_array = center_points points_array labels segment_number;
                   eroded_image = erosion lib im_shape cell_image (disk ring_thickness);
                   image_ring = (\<lambda>p. cell_image p - eroded_image p);
                   points_array = nonzero im_shape image_ring;
                   cluster_identity =
                     map (\<lambda>p. np_argmin (map (euclid p) center_point_array)) points_array;
                   points_array = zip points_array cluster_identity;
                   centroid_array =
                     sort_values (centroid_rows cell_center points_array segment_number);
                   new_identity =
                     map (\<lambda>q. first_index (set_is (snd q)) centroid_array) points_array
               in if None \<in> set new_identity then Inl IndexError
                  else Inr (map2 (\<lambda>q n. (fst (fst q), snd (fst q), the n))
                              points_array new_identity))"

text \<open>
  The angle of a segment of the result, computed as the code computes it: the mean row
  and the mean column of the rows with segment \<open>i\<close>, the angle \<^verbatim>\<open>arctan2\<close> of the code
  relative to \<open>cell_center\<close>, and \<open>2 * pi\<close> added when it is negative.
\<close>

definition segment_angle :: "real \<times> real \<Rightarrow> (nat \<times> nat \<times> nat) list \<Rightarrow> nat \<Rightarrow> real" where
  "segment_angle cell_center rows i =
     (let sel = filter (\<lambda>row. snd (snd row) = i) rows;
          mx = sum_list (map (\<lambda>row. real (fst row)) sel) / real (length sel);
          my = sum_list (map (\<lambda>row. real (fst (snd row))) sel) / real (length sel);
          centroid_angle = arctan2 (mx - snd cell_center) (my - fst cell_center)
      in if centroid_angle < 0 then centroid_angle + 2 * pi else centroid_angle)"

section \<open>Properties\<close>

subsection \<open>Perpendicularity index\<close>

lemma pi_half_pos: "0 < pi / 2"
  by simp

text \<open>
  C3, as stated, fails: the score is not within [0, 1] for every pair of reals.
  The difference is folded by \<open>pi\<close> only once, so at \<open>alpha = 0\<close>, \<open>beta = 3 * pi\<close> the
  difference \<open>3 * pi\<close> becomes \<open>2 * pi\<close>, is reflected to \<open>- pi\<close>, and the score is \<open>-2\<close>.
\<close>

theorem perpendicular_index_range_counterexample:
  "calculate_perpendicular_index 0 (3 * pi) = - 2"
proof -
  have "\<bar>0 - 3 * pi\<bar> = 3 * pi" by simp
  then show ?thesis
    unfolding calculate_perpendicular_index_def Let_def by simp
qed

text \<open>
  C3, amended: whenever the two angles differ by at most \<open>2 * pi\<close> (in particular for all
  angles in \<open>[- pi, pi]\<close>) the score lies in the closed interval [0, 1]; and
  \<open>score 0 0 = 0\<close>, \<open>score 0 (pi / 2) = 1\<close>.
\<close>

theorem perpendicular_index_range:
  "(\<bar>alpha - beta\<bar> \<le> 2 * pi \<longrightarrow>
      0 \<le> calculate_perpendicular_index alpha beta
      \<and> calculate_perpendicular_index alpha beta \<le> 1)
   \<and> calculate_perpendicular_index 0 0 = 0
   \<and> calculate_perpendicular_index 0 (pi / 2) = 1"
proof (intro conjI impI)
  assume d: "\<bar>alpha - beta\<bar> \<le> 2 * pi"
  define a where "a = \<bar>alpha - beta\<bar>"
  have a0: "0 \<le> a" and a2: "a \<le> 2 * pi"
    using d by (simp_all add: a_def)
  have eq: "calculate_perpendicular_index alpha beta =
      (if a > pi then (if a - pi > pi / 2 then pi / 2 - (a - pi - pi / 2) else a - pi)
       else (if a > pi / 2 then pi / 2 - (a - pi / 2) else a)) / (pi / 2)"
    unfolding calculate_perpendicular_index_def Let_def a_def by simp
  show "0 \<le> calculate_perpendicular_index alpha beta"
    unfolding eq using a0 a2 pi_gt_zero by (auto simp: field_simps)
  show "calculate_perpendicular_index alpha beta \<le> 1"
    unfolding eq using a0 a2 pi_gt_zero by (auto simp: field_simps)
next
  show "calculate_perpendicular_index 0 0 = 0"
    unfolding calculate_perpendicular_index_def Let_def by simp
next
  show "calculate_perpendicular_index 0 (pi / 2) = 1"
    unfolding calculate_perpendicular_index_def Let_def by simp
qed

theorem perpendicular_index_range_witness:
  "\<bar>0 - pi / 2\<bar> \<le> 2 * pi
   \<and> 0 \<le> calculate_perpendicular_index 0 (pi / 2)
   \<and> calculate_perpendicular_index 0 (pi / 2) \<le> 1"
proof -
  have h: "\<bar>0 - pi / 2\<bar> \<le> 2 * pi" by simp
  show ?thesis
    using h perpendicular_index_range [of 0 "pi / 2"] by blast
qed

lemma cpi_fold:
  "calculate_perpendicular_index alpha beta =
      (if \<bar>alpha - beta\<bar> > pi
       then (if \<bar>alpha - beta\<bar> - pi > pi / 2 then 2 * pi - \<bar>alpha - beta\<bar>
             else \<bar>alpha - beta\<bar> - pi)
       else (if \<bar>alpha - beta\<bar> > pi / 2 then pi - \<bar>alpha - beta\<bar>
             else \<bar>alpha - beta\<bar>)) / (pi / 2)"
  unfolding calculate_perpendicular_index_def Let_def by simp

lemma cpi_commute:
  "calculate_perpendicular_index alpha beta = calculate_perpendicular_index beta alpha"
  unfolding calculate_perpendicular_index_def by (simp add: abs_minus_commute)

lemma cpi_shift:
  assumes "\<bar>alpha - beta\<bar> \<le> 2 * pi" and "\<bar>alpha + pi - beta\<bar> \<le> 2 * pi"
  shows "calculate_perpendicular_index (alpha + pi) beta =
         calculate_perpendicular_index alpha beta"
proof -
  define t where "t = alpha - beta"
  have t: "alpha + pi - beta = t + pi"
    by (simp add: t_def)
  have r: "- 2 * pi \<le> t" "t \<le> pi"
    using assms pi_gt_zero unfolding t_def by linarith+
  show ?thesis
    unfolding cpi_fold t t_def [symmetric]
    using r pi_gt_zero by (simp add: abs_if field_simps split: if_splits)
qed

text \<open>
  C4, as stated, fails: the score is not periodic with period \<open>pi\<close> for all reals.
  With \<open>alpha = 0\<close> and \<open>beta = - 2 * pi\<close> the score is 0, but shifting \<open>alpha\<close> by \<open>pi\<close>
  gives a difference of \<open>3 * pi\<close> and the score \<open>-2\<close>.
\<close>

theorem perpendicular_index_period_counterexample:
  "calculate_perpendicular_index (0 + pi) (- 2 * pi) \<noteq>
   calculate_perpendicular_index 0 (- 2 * pi)"
proof -
  have a: "\<bar>0 + pi - - 2 * pi\<bar> = 3 * pi" by simp
  have b: "\<bar>0 - - 2 * pi\<bar> = 2 * pi" by simp
  have "calculate_perpendicular_index (0 + pi) (- 2 * pi) = - 2"
    unfolding calculate_perpendicular_index_def Let_def a by simp
  moreover have "calculate_perpendicular_index 0 (- 2 * pi) = 0"
    unfolding calculate_perpendicular_index_def Let_def b by simp
  ultimately show ?thesis by simp
qed

text \<open>
  C4, amended: the score is symmetric for all reals, and
  \<open>score alpha (alpha + pi) = score alpha alpha\<close> for all reals; it is invariant under a
  shift of either argument by \<open>pi\<close> whenever the two angles differ by at most \<open>2 * pi\<close>
  both before and after the shift.
\<close>

theorem perpendicular_index_symmetric_periodic:
  "calculate_perpendicular_index alpha beta = calculate_perpendicular_index beta alpha
   \<and> calculate_perpendicular_index alpha (alpha + pi) =
       calculate_perpendicular_index alpha alpha
   \<and> (\<bar>alpha - beta\<bar> \<le> 2 * pi \<and> \<bar>alpha + pi - beta\<bar> \<le> 2 * pi \<longrightarrow>
        calculate_perpendicular_index (alpha + pi) beta =
        calculate_perpendicular_index alpha beta)
   \<and> (\<bar>alpha - beta\<bar> \<le> 2 * pi \<and> \<bar>alpha - (beta + pi)\<bar> \<le> 2 * pi \<longrightarrow>
        calculate_perpendicular_index alpha (beta + pi) =
        calculate_perpendicular_index alpha beta)"
proof (intro conjI impI)
  show "calculate_perpendicular_index alpha beta = calculate_perpendicular_index beta alpha"
    by (rule cpi_commute)
next
  have "\<bar>alpha - (alpha + pi)\<bar> = pi" by simp
  then show "calculate_perpendicular_index alpha (alpha + pi) =
      calculate_perpendicular_index alpha alpha"
    unfolding calculate_perpendicular_index_def Let_def by simp
next
  assume "\<bar>alpha - beta\<bar> \<le> 2 * pi \<and> \<bar>alpha + pi - beta\<bar> \<le> 2 * pi"
  then show "calculate_perpendicular_index (alpha + pi) beta =
      calculate_perpendicular_index alpha beta"
    by (simp add: cpi_shift)
next
  assume h: "\<bar>alpha - beta\<bar> \<le> 2 * pi \<and> \<bar>alpha - (beta + pi)\<bar> \<le> 2 * pi"
  then have "\<bar>beta - alpha\<bar> \<le> 2 * pi" and "\<bar>beta + pi - alpha\<bar> \<le> 2 * pi"
    by linarith+
  then have "calculate_perpendicular_index (beta + pi) alpha =
      calculate_perpendicular_index beta alpha"
    by (rule cpi_shift)
  then show "calculate_perpendicular_index alpha (beta + pi) =
      calculate_perpendicular_index alpha beta"
    by (simp add: cpi_commute [of alpha])
qed

theorem perpendicular_index_symmetric_periodic_witness:
  "\<bar>0 - 0\<bar> \<le> 2 * pi \<and> \<bar>0 + pi - 0\<bar> \<le> 2 * pi
   \<and> \<bar>0 - (0 + pi)\<bar> \<le> 2 * pi
   \<and> calculate_perpendicular_index (0 + pi) 0 = calculate_perpendicular_index 0 0
   \<and> calculate_perpendicular_index 0 (0 + pi) = calculate_perpendicular_index 0 0"
proof -
  have h: "\<bar>0 - 0\<bar> \<le> 2 * pi" "\<bar>0 + pi - 0\<bar> \<le> 2 * pi" "\<bar>0 - (0 + pi)\<bar> \<le> 2 * pi"
    by simp_all
  show ?thesis
    using h perpendicular_index_symmetric_periodic [of 0 0] by blast
qed

subsection \<open>Edge orientations\<close>

lemma orientations_nth:
  "i < length vert \<Longrightarrow>
   orientations_from_vertices vert ! i =
     arctan2 (fst (vert ! i) - fst (vert ! (if i = length vert - 1 then 0 else i + 1)))
             (snd (vert ! i) - snd (vert ! (if i = length vert - 1 then 0 else i + 1)))"
  by (simp add: orientations_from_vertices_def calculate_orientation_def Let_def)

lemma upt_four: "[0..<4] = [0, 1, 2, 3]"
  by (simp add: upt_rec)

lemma rectangle_columns_first:
  assumes "s \<noteq> 0" and "t \<noteq> 0"
  shows "set (orientations_from_vertices [(r, c), (r, c + s), (r + t, c + s), (r + t, c)])
     = {0, pi / 2, pi, - (pi / 2)}"
  using assms
  by (cases "0 < s"; cases "0 < t")
     (auto simp: orientations_from_vertices_def calculate_orientation_def Let_def
        upt_four arctan2_def)

lemma rectangle_rows_first:
  assumes "s \<noteq> 0" and "t \<noteq> 0"
  shows "set (orientations_from_vertices [(r, c), (r + t, c), (r + t, c + s), (r, c + s)])
     = {0, pi / 2, pi, - (pi / 2)}"
  using assms
  by (cases "0 < s"; cases "0 < t")
     (auto simp: orientations_from_vertices_def calculate_orientation_def Let_def
        upt_four arctan2_def)

text \<open>
  C5, as stated, fails: the angle returned for edge \<open>i\<close> is not the angle of the
  displacement from vertex \<open>i\<close> to vertex \<open>i + 1\<close>. The code calls
  \<^verbatim>\<open>calculate_orientation(p1, p0)\<close>, which subtracts \<open>p1\<close> from \<open>p0\<close>. For the two vertices
  (0, 0) and (0, 1) the first edge points along the positive x axis (angle 0), and the
  code returns \<open>pi\<close>.
\<close>

theorem orientations_direction_counterexample:
  "orientations_from_vertices [(0, 0), (0, 1)] ! 0 = pi
   \<and> spec_edge_orientation [(0, 0), (0, 1)] 0 = 0"
  by (simp add: orientations_from_vertices_def calculate_orientation_def
      spec_edge_orientation_def Let_def arctan2_def)

text \<open>
  C5, amended: for every vertex list with \<open>n\<close> vertices the function returns exactly \<open>n\<close>
  angles, one per edge in input order, where the angle of edge \<open>i\<close> is \<open>atan2 (dy, dx)\<close> of
  the displacement from vertex \<open>i + 1\<close> (vertex 0 after the last) back to vertex \<open>i\<close>, with
  the column as x and the row as y; and for an axis-aligned square (indeed any
  axis-aligned rectangle, traversed either way from any corner) the four returned
  orientations are exactly the set \<open>{0, pi / 2, pi, - pi / 2}\<close>.
\<close>

theorem orientations_from_vertices_edges:
  "length (orientations_from_vertices vert) = length vert
   \<and> (\<forall>i < length vert.
        orientations_from_vertices vert ! i =
          arctan2 (fst (vert ! i) - fst (vert ! (if i = length vert - 1 then 0 else i + 1)))
                  (snd (vert ! i) - snd (vert ! (if i = length vert - 1 then 0 else i + 1))))
   \<and> (s \<noteq> 0 \<and> t \<noteq> 0 \<longrightarrow>
        set (orientations_from_vertices [(r, c), (r, c + s), (r + t, c + s), (r + t, c)])
          = {0, pi / 2, pi, - (pi / 2)}
        \<and> set (orientations_from_vertices [(r, c), (r + t, c), (r + t, c + s), (r, c + s)])
          = {0, pi / 2, pi, - (pi / 2)})"
proof (intro conjI allI impI)
  show "length (orientations_from_vertices vert) = length vert"
    by (simp add: orientations_from_vertices_def)
next
  fix i assume "i < length vert"
  then show "orientations_from_vertices vert ! i =
      arctan2 (fst (vert ! i) - fst (vert ! (if i = length vert - 1 then 0 else i + 1)))
              (snd (vert ! i) - snd (vert ! (if i = length vert - 1 then 0 else i + 1)))"
    by (rule orientations_nth)
next
  assume "s \<noteq> 0 \<and> t \<noteq> 0"
  then show "set (orientations_from_vertices [(r, c), (r, c + s), (r + t, c + s), (r + t, c)])
      = {0, pi / 2, pi, - (pi / 2)}"
    by (simp add: rectangle_columns_first)
next
  assume "s \<noteq> 0 \<and> t \<noteq> 0"
  then show "set (orientations_from_vertices [(r, c), (r + t, c), (r + t, c + s), (r, c + s)])
      = {0, pi / 2, pi, - (pi / 2)}"
    by (simp add: rectangle_rows_first)
qed

theorem orientations_from_vertices_edges_witness:
  "(0::nat) < length [(0::real, 0::real), (0, 2), (2, 2), (2, 0)]
   \<and> (2::real) \<noteq> 0
   \<and> orientations_from_vertices [(0, 0), (0, 2), (2, 2), (2, 0)] ! 0 = arctan2 0 (- 2)
   \<and> set (orientations_from_vertices [(0, 0), (0, 0 + 2), (0 + 2, 0 + 2), (0 + 2, 0)])
       = {0, pi / 2, pi, - (pi / 2)}"
proof -
  have h: "(0::nat) < length [(0::real, 0::real), (0, 2), (2, 2), (2, 0)]" "(2::real) \<noteq> 0"
    by simp_all
  have "orientations_from_vertices [(0, 0), (0, 2), (2, 2), (2, 0)] ! 0 = arctan2 0 (- 2)"
    using h orientations_from_vertices_edges
      [of "[(0, 0), (0, 2), (2, 2), (2, 0)]" 2 2 0 0] by simp
  moreover have "set (orientations_from_vertices [(0, 0), (0, 0 + 2), (0 + 2, 0 + 2), (0 + 2, 0)])
       = {0, pi / 2, pi, - (pi / 2)}"
    using h orientations_from_vertices_edges [of "[]" 2 2 0 0] by blast
  ultimately show ?thesis using h by blast
qed

subsection \<open>Mask builder\<close>






text \<open>
  C1: the claim says that a pixel covered by two or more polygons ends at the sentinel
  255 in the overlap-aware mask and at 0 in the overlap-free mask, also when three or
  more polygons cover it. The code does not do this. For three 2D polygons that all
  cover the pixel (0, 0) of a one-pixel image, the pixel is 1 after the first, 255 after
  the second, and after the third the \<^verbatim>\<open>uint8\<close> sum \<open>255 + 3\<close> wraps to 2, which is not
  above 3: the pixel ends with the value 2 in both masks, the label of the second
  polygon.
\<close>

theorem create_mask_triple_overlap:
  "case create_mask_from_shapes covering [square2d, square2d, square2d] (1, 1) of
     Inl e \<Rightarrow> False
   | Inr (mask_shapes_overlap, mask_shapes) \<Rightarrow>
       mask_shapes_overlap (0, 0) = 2 \<and> mask_shapes (0, 0) = 2"
  by (simp add: create_mask_from_shapes_def mask_step_def accumulate_def covering_def
      square2d_def Let_def)








subsection \<open>Interior points\<close>

text \<open>
  C8, as stated, fails: with \<open>line_width < 3\<close> no error is raised. The call returns, as an
  ordinary value, a string.
\<close>

theorem get_internal_points_narrow_counterexample:
  "get_internal_points [(0, 0), (0, 4), (4, 4)] 2
     = Inr (PyStr ''Error - line width has to be at least 3.'')"
  by (simp add: get_internal_points_def)

text \<open>
  C8, amended: for every call with \<open>line_width < 3\<close> the function returns at once, before
  any computation, the string \<^verbatim>\<open>'Error - line width has to be at least 3.'\<close> as its
  ordinary return value; it raises nothing.
\<close>

theorem get_internal_points_narrow:
  "line_width < 3 \<Longrightarrow>
   get_internal_points vert line_width
     = Inr (PyStr ''Error - line width has to be at least 3.'')"
  by (simp add: get_internal_points_def)

theorem get_internal_points_narrow_witness:
  "(1::int) < 3
   \<and> get_internal_points [(0, 0), (3, 0)] 1
       = Inr (PyStr ''Error - line width has to be at least 3.'')"
proof -
  have h: "(1::int) < 3" by simp
  show ?thesis
    using h get_internal_points_narrow [OF h, of "[(0, 0), (3, 0)]"] by simp
qed

subsection \<open>Signal interpolator\<close>

text \<open>
  C7: the claim says that every signal with at least one defined entry is returned
  with each \<^verbatim>\<open>nan\<close> replaced. The code does not do this when exactly one entry is
  defined: \<^verbatim>\<open>.squeeze()\<close> then turns \<open>xp\<close> and \<open>fp\<close> into zero-dimensional arrays, which
  \<^verbatim>\<open>np.interp\<close> refuses. For the signal \<open>[5, nan]\<close> the call raises \<^verbatim>\<open>ValueError\<close> where the
  claim promises \<open>[5, 5]\<close>; and the signal \<open>[5]\<close>, which has no \<^verbatim>\<open>nan\<close> at all, is not
  returned unchanged: the call raises as well.
\<close>


theorem interpolate_single_sample_raises:
  "interpolate_and_fill [[Some 5, None]] 0 = Inl ValueError
   \<and> interpolate_and_fill [[Some 5]] 0 = Inl ValueError"
  by (simp add: interpolate_and_fill_def squeeze_def np_interp_def Let_def upt_conv_Cons)

subsection \<open>Gap and overlap resolver\<close>

lemma set_pixels: "set (pixels im_shape) = {p. in_image im_shape p}"
  by (auto simp: pixels_def in_image_def)

lemma or_pos: "0 < (of_bool b OR (w::uint8)) \<longleftrightarrow> b \<or> w \<noteq> 0"
  by (cases b) (simp_all add: word_gt_0 or_eq_0_iff)

lemma fill_gaps_result:
  assumes "a < length h" "pixels im_shape \<noteq> []"
  shows "fill_gaps_between_cells lib im_shape h a =
     Inr (h @ [\<lambda>p. if (h ! a) p = 255 then 0 else (h ! a) p],
          \<lambda>p. uint (expand_labels lib im_shape (\<lambda>p. if (h ! a) p = 255 then 0 else (h ! a) p) 250 p)
              * (of_bool (mask_trimmed lib im_shape (h ! a) (\<lambda>p. if (h ! a) p = 255 then 0 else (h ! a) p) p)
                  - of_bool (0 < (h ! a) p) + of_bool ((h ! a) p = 255)))"
  using assms
  by (simp add: fill_gaps_between_cells_def Let_def nth_list_update nth_append_left
      cong del: if_weak_cong)

lemma mask_trimmed_eq:
  "mask_trimmed lib im_shape mask_shapes_overlap mask_shapes =
     (\<lambda>p. closing lib im_shape
       (\<lambda>p. binary_erosion lib im_shape
              (\<lambda>p. opening_op lib im_shape
                     (\<lambda>p. 0 < mask_shapes_overlap p \<or> 1 < passages lib im_shape mask_shapes p)
                     (disk 10) p \<or> mask_shapes_overlap p \<noteq> 0)
              (disk 5) p \<or> mask_shapes_overlap p \<noteq> 0)
       (disk 2) p \<or> mask_shapes_overlap p \<noteq> 0)"
  unfolding mask_trimmed_def Let_def by (simp only: or_pos)

lemma mask_trimmed_fg:
  "mask_shapes_overlap p \<noteq> 0 \<Longrightarrow> mask_trimmed lib im_shape mask_shapes_overlap mask_shapes p"
  by (simp add: mask_trimmed_eq)

lemma mask_list_le1: "m \<in> set (mask_list lib im_shape mask_shapes radius) \<Longrightarrow> m p \<le> 1"
  by (auto simp: mask_list_def Let_def)

lemma np_max_le:
  assumes "\<And>p. unat (m p) \<le> k"
  shows "np_max im_shape m \<le> k"
proof -
  have "fold (\<lambda>p acc. max (unat (m p)) acc) ps acc \<le> k" if "acc \<le> k" for ps acc
    using that assms by (induction ps arbitrary: acc) auto
  then show ?thesis by (simp add: np_max_def)
qed

lemma few_labels_not_possible:
  assumes "np_max im_shape mask_shapes \<le> 1"
  shows "\<not> 1 < sum_axis0 (mask_list lib im_shape mask_shapes radius) p"
proof -
  have "length (mask_list lib im_shape mask_shapes radius) \<le> 1"
    using assms by (simp add: mask_list_def)
  then consider "mask_list lib im_shape mask_shapes radius = []"
    | m where "mask_list lib im_shape mask_shapes radius = [m]"
    by (cases "mask_list lib im_shape mask_shapes radius") (auto simp: length_Suc_conv)
  then show ?thesis
  proof cases
    case 1 then show ?thesis by (simp add: sum_axis0_def)
  next
    case 2
    then have "m p \<le> 1" using mask_list_le1[of m lib im_shape mask_shapes radius p] by simp
    with 2 show ?thesis by (simp add: sum_axis0_def)
  qed
qed

lemma passages_no_gap:
  assumes "\<not> (list_ex (\<lambda>m. m p \<noteq> 0) (mask_list lib im_shape mask_shapes 8)
         \<and> 1 < sum_axis0 (mask_list lib im_shape mask_shapes 10) p)"
  shows "passages lib im_shape mask_shapes p = 0"
proof -
  have z: "sum_list (map (\<lambda>m. (of_bool (m p \<noteq> 0 \<and> b) :: int)) ms) = 0"
    if "\<forall>m \<in> set ms. \<not> (m p \<noteq> 0 \<and> b)" for ms :: "int image list" and b
    using that by (induction ms) auto
  have "\<forall>m \<in> set (mask_list lib im_shape mask_shapes 8).
      \<not> (m p \<noteq> 0 \<and> possible lib im_shape mask_shapes p)"
    using assms by (auto simp: possible_def list_ex_iff)
  then have "sum_list (map (\<lambda>m. (of_bool (m p \<noteq> 0 \<and> possible lib im_shape mask_shapes p) :: int))
      (mask_list lib im_shape mask_shapes 8)) = 0"
    by (rule z)
  then show ?thesis
    by (simp add: passages_def sum_axis0_def Let_def comp_def)
qed

lemma fill_gaps_nonempty:
  "fill_gaps_between_cells lib im_shape h a = Inr r \<Longrightarrow> pixels im_shape \<noteq> []"
  by (auto simp: fill_gaps_between_cells_def Let_def split: if_splits)

lemma clean_label_zero:
  assumes "a < length h" "fill_gaps_between_cells lib im_shape h a = Inr (h', im_divided)"
    "(h ! a) p \<noteq> 0" "(h ! a) p \<noteq> 255"
  shows "im_divided p = 0"
proof -
  have ne: "pixels im_shape \<noteq> []"
    using assms(2) by (rule fill_gaps_nonempty)
  show ?thesis
    using assms(2) assms(3,4) unfolding fill_gaps_result[OF assms(1) ne]
    by (auto simp: mask_trimmed_fg word_gt_0)
qed

lemma resolver_value:
  assumes a: "a < length h" and ne: "pixels im_shape \<noteq> []"
    and ns: "\<forall>p. (h ! a) p \<noteq> 255"
    and ng: "\<forall>p. \<not> narrow_gap lib im_shape (h ! a) p"
    and h1: "\<forall>p. opening_op lib im_shape (\<lambda>q. 0 < (h ! a) q) (disk 10) p \<longrightarrow> 0 < (h ! a) p"
    and h2: "\<forall>p. binary_erosion lib im_shape (\<lambda>q. 0 < (h ! a) q) (disk 5) p \<longrightarrow> 0 < (h ! a) p"
  shows "fill_gaps_between_cells lib im_shape h a =
     Inr (h @ [h ! a],
          \<lambda>p. uint (expand_labels lib im_shape (h ! a) 250 p)
              * (of_bool (closing lib im_shape (\<lambda>q. 0 < (h ! a) q) (disk 2) p \<or> (h ! a) p \<noteq> 0)
                  - of_bool (0 < (h ! a) p)))"
proof -
  let ?ov = "h ! a"
  have zs: "(\<lambda>p. if ?ov p = 255 then 0 else ?ov p) = ?ov"
    using ns by auto
  have pz: "passages lib im_shape ?ov q = 0" for q
  proof (rule passages_no_gap)
    from ng have "\<not> narrow_gap lib im_shape ?ov q" by blast
    then show "\<not> (list_ex (\<lambda>m. m q \<noteq> 0) (mask_list lib im_shape ?ov 8)
         \<and> 1 < sum_axis0 (mask_list lib im_shape ?ov 10) q)"
      by (simp add: narrow_gap_def Let_def zs)
  qed
  have t0: "(\<lambda>p. 0 < ?ov p \<or> 1 < passages lib im_shape ?ov p) = (\<lambda>q. 0 < ?ov q)"
    by (simp add: pz)
  have t1: "(\<lambda>p. opening_op lib im_shape (\<lambda>q. 0 < ?ov q) (disk 10) p \<or> ?ov p \<noteq> 0) = (\<lambda>q. 0 < ?ov q)"
    using h1 by (auto simp: word_gt_0)
  have t2: "(\<lambda>p. binary_erosion lib im_shape (\<lambda>q. 0 < ?ov q) (disk 5) p \<or> ?ov p \<noteq> 0) = (\<lambda>q. 0 < ?ov q)"
    using h2 by (auto simp: word_gt_0)
  have mt: "mask_trimmed lib im_shape ?ov ?ov =
      (\<lambda>p. closing lib im_shape (\<lambda>q. 0 < ?ov q) (disk 2) p \<or> ?ov p \<noteq> 0)"
    unfolding mask_trimmed_eq t0 t1 t2 ..
  have s: "of_bool (?ov p = 255) = (0::int)" for p
    using ns [rule_format, of p] by simp
  show ?thesis
    unfolding fill_gaps_result[OF a ne] zs mt s by simp
qed

lemma all_zero:
  assumes a: "a < length h" and r: "fill_gaps_between_cells lib im_shape h a = Inr (h', im_divided)"
    and ns: "\<forall>p. (h ! a) p \<noteq> 255"
    and ng: "\<forall>p. \<not> narrow_gap lib im_shape (h ! a) p"
    and h1: "\<forall>p. opening_op lib im_shape (\<lambda>q. 0 < (h ! a) q) (disk 10) p \<longrightarrow> 0 < (h ! a) p"
    and h2: "\<forall>p. binary_erosion lib im_shape (\<lambda>q. 0 < (h ! a) q) (disk 5) p \<longrightarrow> 0 < (h ! a) p"
    and h3: "\<forall>p. closing lib im_shape (\<lambda>q. 0 < (h ! a) q) (disk 2) p \<longrightarrow> 0 < (h ! a) p"
  shows "im_divided p = 0"
proof -
  have ne: "pixels im_shape \<noteq> []"
    using r by (rule fill_gaps_nonempty)
  have "(closing lib im_shape (\<lambda>q. 0 < (h ! a) q) (disk 2) p \<or> (h ! a) p \<noteq> 0) = (0 < (h ! a) p)"
    using h3 [rule_format, of p] by (auto simp: word_gt_0)
  then show ?thesis
    using r unfolding resolver_value[OF a ne ns ng h1 h2] by auto
qed

lemma disk2: "disk 2 = [(-2,0),(-1,-1),(-1,0),(-1,1),(0,-2),(0,-1),(0,0),(0,1),(0,2),(1,-1),(1,0),(1,1),(2,0)]"
  by code_simp

lemma set_disk:
  "set (disk radius) =
     {(dr, dc). - int radius \<le> dr \<and> dr \<le> int radius
        \<and> - int radius \<le> dc \<and> dc \<le> int radius \<and> dr\<^sup>2 + dc\<^sup>2 \<le> (int radius)\<^sup>2}"
  by (auto simp: disk_def)

lemma origin_in_disk: "(0, 0) \<in> set (disk radius)"
  by (simp add: set_disk)

lemma shifted_origin: "in_image im_shape p \<Longrightarrow> shifted im_shape p (0, 0) = Some p"
  by (simp add: shifted_def in_image_def Let_def)

lemma std_erosion_sub:
  assumes "std_erosion im_shape X (disk radius) p"
  shows "X p"
proof -
  from assms have i: "in_image im_shape p"
    and a: "\<forall>d \<in> set (disk radius). case shifted im_shape p d of None \<Rightarrow> True | Some q \<Rightarrow> X q"
    by (auto simp: std_erosion_def list_all_iff)
  from a origin_in_disk have "case shifted im_shape p (0, 0) of None \<Rightarrow> True | Some q \<Rightarrow> X q"
    by blast
  with i show ?thesis by (simp add: shifted_origin)
qed

lemma shifted_back:
  assumes "shifted im_shape p (- fst d, - snd d) = Some q" "in_image im_shape p"
  shows "shifted im_shape q d = Some p"
  using assms by (auto simp: shifted_def in_image_def Let_def split: if_splits)

lemma std_opening_sub:
  assumes "std_dilation im_shape (std_erosion im_shape X fp) fp p"
  shows "X p"
proof -
  from assms obtain d q where i: "in_image im_shape p" and d: "d \<in> set fp"
    and q: "shifted im_shape p (- fst d, - snd d) = Some q"
    and e: "std_erosion im_shape X fp q"
    by (auto simp: std_dilation_def list_ex_iff split: option.splits)
  from e d have "case shifted im_shape q d of None \<Rightarrow> True | Some q' \<Rightarrow> X q'"
    by (auto simp: std_erosion_def list_all_iff)
  with shifted_back[OF q i] show ?thesis by simp
qed

lemma fg_holed: "(0 < holed q) = (fst q < 5 \<and> snd q < 5 \<and> q \<noteq> (2,2))"
  by (simp add: holed_def)

lemma closing_hole:
  "std_erosion (5, 5) (std_dilation (5, 5) (\<lambda>q. 0 < holed q) (disk 2)) (disk 2) (2, 2)"
  unfolding disk2 fg_holed
  by (simp add: std_erosion_def std_dilation_def in_image_def shifted_def)

lemma std_expand_nonzero:
  assumes "in_image im_shape p" and "in_image im_shape q" and "label_image q \<noteq> 0"
    and "sq_dist p q \<le> (int distance)\<^sup>2"
  shows "std_expand_labels im_shape label_image distance p \<noteq> 0"
proof (cases "label_image p = 0")
  case False
  with assms(1) show ?thesis by (simp add: std_expand_labels_def)
next
  case True
  define near where
    "near = filter (\<lambda>q. label_image q \<noteq> 0 \<and> sq_dist p q \<le> (int distance)\<^sup>2) (pixels im_shape)"
  have "q \<in> set near"
    using assms by (simp add: near_def set_pixels)
  then have ne: "near \<noteq> []" by auto
  then have "arg_min_list (sq_dist p) near \<in> set near"
    by (rule arg_min_list_in)
  then have "label_image (arg_min_list (sq_dist p) near) \<noteq> 0"
    by (simp add: near_def)
  with ne True assms(1) show ?thesis
    by (simp add: std_expand_labels_def Let_def near_def [symmetric])
qed

lemma std_expand_range:
  "std_expand_labels im_shape label_image distance p = 0
   \<or> (\<exists>q. std_expand_labels im_shape label_image distance p = label_image q)"
  unfolding std_expand_labels_def Let_def by (simp only: split: if_splits) blast

lemma expand_hole: "std_expand_labels (5, 5) holed 250 (2, 2) = 1"
proof -
  have "std_expand_labels (5, 5) holed 250 (2, 2) \<noteq> 0"
    by (rule std_expand_nonzero [where q = "(2, 1)"])
       (simp_all add: in_image_def holed_def sq_dist_def)
  moreover have hv: "holed q = 0 \<or> holed q = 1" for q
    by (simp add: holed_def)
  ultimately show ?thesis
    using std_expand_range [of "(5, 5)" holed 250 "(2, 2)"] hv by fastforce
qed

lemma holed_no_sentinel: "holed p \<noteq> 255"
  by (simp add: holed_def)

lemma one_label_no_gap:
  assumes "\<And>p. unat (m p) \<le> 1"
  shows "\<not> narrow_gap lib im_shape m p"
proof -
  have "np_max im_shape (\<lambda>q. if m q = 255 then 0 else m q) \<le> 1"
    by (rule np_max_le) (use assms in auto)
  then show ?thesis
    using few_labels_not_possible by (simp add: narrow_gap_def Let_def)
qed

lemma holed_no_gap: "\<not> narrow_gap lib im_shape holed p"
  by (rule one_label_no_gap) (simp add: holed_def)

lemma pixels_nonempty: "pixels (5, 5) \<noteq> []"
  by (simp add: pixels_def upt_conv_Cons)



text \<open>
  C2, as stated, fails: a mask without sentinel pixels and without narrow gaps does not
  always give an all-zero grid. In the 5 by 5 mask \<open>holed\<close> one region surrounds a
  background pixel. There is one region only, so no pixel lies in the rings of two
  regions. Opening and erosion add nothing to the foreground, but the closing with a
  disk of radius 2 fills the hole, \<open>to_divide\<close> is 1 there, and the expanded labels give
  the pixel the label 1.
\<close>

theorem fill_gaps_hole_counterexample:
  "(\<forall>p. holed p \<noteq> 255)
   \<and> (\<forall>p. \<not> narrow_gap std_morphology (5, 5) holed p)
   \<and> (case fill_gaps_between_cells std_morphology (5, 5) [holed] 0 of
         Inl e \<Rightarrow> False
       | Inr (h, im_divided) \<Rightarrow> im_divided (2, 2) = 1)"
proof -
  let ?fg = "\<lambda>q. 0 < holed q"
  have a: "0 < length [holed]" by simp
  have ns: "\<forall>p. ([holed] ! 0) p \<noteq> 255"
    by (simp add: holed_no_sentinel)
  have ng: "\<forall>p. \<not> narrow_gap std_morphology (5, 5) ([holed] ! 0) p"
    by (simp add: holed_no_gap)
  have h1: "\<forall>p. opening_op std_morphology (5, 5) (\<lambda>q. 0 < ([holed] ! 0) q) (disk 10) p
       \<longrightarrow> 0 < ([holed] ! 0) p"
    using std_opening_sub [of "(5, 5)" ?fg "disk 10"] by (simp add: std_morphology_def)
  have h2: "\<forall>p. binary_erosion std_morphology (5, 5) (\<lambda>q. 0 < ([holed] ! 0) q) (disk 5) p
       \<longrightarrow> 0 < ([holed] ! 0) p"
    using std_erosion_sub [of "(5, 5)" ?fg 5] by (simp add: std_morphology_def)
  have c: "closing std_morphology (5, 5) ?fg (disk 2) (2, 2)"
    using closing_hole by (simp add: std_morphology_def)
  have ex: "expand_labels std_morphology (5, 5) holed 250 (2, 2) = 1"
    using expand_hole by (simp add: std_morphology_def)
  have z: "\<not> 0 < holed (2, 2)"
    by (simp add: holed_def)
  have "case fill_gaps_between_cells std_morphology (5, 5) [holed] 0 of
         Inl e \<Rightarrow> False
       | Inr (h, im_divided) \<Rightarrow> im_divided (2, 2) = 1"
    unfolding resolver_value [OF a pixels_nonempty ns ng h1 h2]
    using c ex z by simp
  then show ?thesis
    using holed_no_sentinel holed_no_gap by blast
qed

lemma std_dilation_near:
  assumes "std_dilation im_shape X (disk radius) p"
  shows "\<exists>q. X q \<and> in_image im_shape q
     \<and> \<bar>int (fst p) - int (fst q)\<bar> \<le> int radius \<and> \<bar>int (snd p) - int (snd q)\<bar> \<le> int radius"
proof -
  from assms obtain d q where d: "d \<in> set (disk radius)"
    and q: "shifted im_shape p (- fst d, - snd d) = Some q" and x: "X q"
    by (auto simp: std_dilation_def list_ex_iff split: option.splits)
  from d have b: "\<bar>fst d\<bar> \<le> int radius" "\<bar>snd d\<bar> \<le> int radius"
    by (auto simp: set_disk)
  from q have "in_image im_shape q" "int (fst q) = int (fst p) - fst d"
    "int (snd q) = int (snd p) - snd d"
    by (auto simp: shifted_def in_image_def Let_def split: if_splits)
  with b x have "X q \<and> in_image im_shape q
     \<and> \<bar>int (fst p) - int (fst q)\<bar> \<le> int radius \<and> \<bar>int (snd p) - int (snd q)\<bar> \<le> int radius"
    by simp
  then show ?thesis ..
qed

lemma std_erosion_shift:
  assumes "std_erosion im_shape X fp p" and "d \<in> set fp" and "shifted im_shape p d = Some q"
  shows "X q"
proof -
  from assms(1) have "\<forall>d \<in> set fp. case shifted im_shape p d of None \<Rightarrow> True | Some q \<Rightarrow> X q"
    unfolding std_erosion_def list_all_iff by (rule conjunct2)
  with assms(2) have "case shifted im_shape p d of None \<Rightarrow> True | Some q \<Rightarrow> X q"
    by blast
  with assms(3) show ?thesis by simp
qed

lemma std_erosion_in_image: "std_erosion im_shape X fp p \<Longrightarrow> in_image im_shape p"
  unfolding std_erosion_def by (rule conjunct1)

lemma np_max_two: "sh = (1, 24) \<Longrightarrow> np_max sh two_cells = 2"
  by (simp add: np_max_def pixels_def two_cells_def upt_conv_Cons)

lemma two_cells_no_gap_sh:
  assumes sh: "sh = (1, 24)"
  shows "\<not> narrow_gap std_morphology sh two_cells p"
proof -
  let ?m = "\<lambda>q. if two_cells q = 255 then 0 else two_cells q"
  have m: "?m = two_cells"
    by (auto simp: two_cells_def)
  have n: "[0..<np_max sh two_cells] = [0, 1]"
    unfolding np_max_two [OF sh] by (simp add: upt_conv_Cons)
  let ?d0 = "std_dilation sh (\<lambda>q. unat (two_cells q) = 0 + 1) (disk 10) p"
  let ?d1 = "std_dilation sh (\<lambda>q. unat (two_cells q) = 1 + 1) (disk 10) p"
  have "\<not> (?d0 \<and> ?d1)"
  proof
    assume a: "?d0 \<and> ?d1"
    then obtain q0 where "unat (two_cells q0) = 0 + 1" "\<bar>int (snd p) - int (snd q0)\<bar> \<le> int 10"
      using std_dilation_near [of sh "\<lambda>q. unat (two_cells q) = 0 + 1" 10 p] by blast
    then have p0: "int (snd p) \<le> 10"
      by (auto simp: two_cells_def split: if_splits)
    from a obtain q1 where "unat (two_cells q1) = 1 + 1" "\<bar>int (snd p) - int (snd q1)\<bar> \<le> int 10"
      using std_dilation_near [of sh "\<lambda>q. unat (two_cells q) = 1 + 1" 10 p] by blast
    then have "13 \<le> int (snd p)"
      by (auto simp: two_cells_def split: if_splits)
    with p0 show False by simp
  qed
  then have "\<not> 1 < sum_axis0 (mask_list std_morphology sh two_cells 10) p"
    by (auto simp: sum_axis0_def mask_list_def n std_morphology_def Let_def)
  then show ?thesis
    by (simp add: narrow_gap_def Let_def m)
qed

lemma disk2_cols: "(0, 2) \<in> set (disk 2)" "(0, - 2) \<in> set (disk 2)"
  by (simp_all add: set_disk)

lemma two_cells_closing_sh:
  assumes sh: "sh = (1, 24)"
    and e: "std_erosion sh (std_dilation sh (\<lambda>q. 0 < two_cells q) (disk 2)) (disk 2) p"
  shows "0 < two_cells p"
proof -
  let ?D = "std_dilation sh (\<lambda>q. 0 < two_cells q) (disk 2)"
  from std_erosion_in_image [OF e] obtain c where p: "p = (0, c)" and c: "c < 24"
    by (cases p) (auto simp: in_image_def sh)
  have near: "snd q \<le> 2 \<or> 21 \<le> snd q" if "?D q" for q
  proof -
    from std_dilation_near [OF that] obtain q' where "0 < two_cells q'"
      "\<bar>int (snd q) - int (snd q')\<bar> \<le> int 2" by blast
    then show ?thesis
      by (auto simp: two_cells_def split: if_splits)
  qed
  have up: "c + 2 \<le> 2 \<or> 21 \<le> c + 2" if "c + 2 < 24"
  proof -
    from that have "shifted sh p (0, 2) = Some (0, c + 2)"
      by (simp add: shifted_def p sh Let_def nat_add_distrib)
    from std_erosion_shift [OF e disk2_cols(1) this] have "?D (0, c + 2)" .
    from near [OF this] show ?thesis by simp
  qed
  have down: "c - 2 \<le> 2 \<or> 21 \<le> c - 2" if "2 \<le> c"
  proof -
    from that have "shifted sh p (0, - 2) = Some (0, c - 2)"
      using c by (simp add: shifted_def p sh Let_def nat_diff_distrib)
    from std_erosion_shift [OF e disk2_cols(2) this] have "?D (0, c - 2)" .
    from near [OF this] show ?thesis by simp
  qed
  from up down c have "c = 0 \<or> c = 23" by arith
  then show ?thesis by (auto simp: p two_cells_def)
qed


lemma two_cells_expand: "sh = (1, 24) \<Longrightarrow> std_expand_labels sh two_cells 250 (0, 5) = 1"
  by (simp add: std_expand_labels_def in_image_def two_cells_def pixels_def sq_dist_def
      upt_conv_Cons)

text \<open>
  C2, amended: the resolver returns for every mask with at least one pixel, and every
  pixel that carried a clean single label in the input (neither 0 nor the sentinel 255)
  is 0 in the returned grid, whatever the morphological operations are. If moreover the
  mask has no sentinel pixels and no narrow gaps, and the opening (radius 10), the
  erosion (radius 5) and the closing (radius 2) of its foreground add no pixel to the
  foreground, then the returned grid is 0 everywhere. The first two conditions hold for
  the standard operations; the third says that the foreground has no hole or notch that
  a closing of radius 2 fills.
\<close>

theorem fill_gaps_correction:
  "a < length h \<and> pixels im_shape \<noteq> [] \<longrightarrow>
     (\<exists>h' im_divided.
        fill_gaps_between_cells lib im_shape h a = Inr (h', im_divided)
        \<and> (\<forall>p. (h ! a) p \<noteq> 0 \<and> (h ! a) p \<noteq> 255 \<longrightarrow> im_divided p = 0)
        \<and> ((\<forall>p. (h ! a) p \<noteq> 255)
            \<and> (\<forall>p. \<not> narrow_gap lib im_shape (h ! a) p)
            \<and> (\<forall>p. opening_op lib im_shape (\<lambda>q. 0 < (h ! a) q) (disk 10) p \<longrightarrow> 0 < (h ! a) p)
            \<and> (\<forall>p. binary_erosion lib im_shape (\<lambda>q. 0 < (h ! a) q) (disk 5) p \<longrightarrow> 0 < (h ! a) p)
            \<and> (\<forall>p. closing lib im_shape (\<lambda>q. 0 < (h ! a) q) (disk 2) p \<longrightarrow> 0 < (h ! a) p)
            \<longrightarrow> (\<forall>p. im_divided p = 0)))"
proof (intro impI)
  assume h: "a < length h \<and> pixels im_shape \<noteq> []"
  then obtain h' im_divided where
    r: "fill_gaps_between_cells lib im_shape h a = Inr (h', im_divided)"
    using fill_gaps_result [of a h im_shape lib] by blast
  have "\<forall>p. (h ! a) p \<noteq> 0 \<and> (h ! a) p \<noteq> 255 \<longrightarrow> im_divided p = 0"
    using h r clean_label_zero by blast
  moreover have "(\<forall>p. (h ! a) p \<noteq> 255)
            \<and> (\<forall>p. \<not> narrow_gap lib im_shape (h ! a) p)
            \<and> (\<forall>p. opening_op lib im_shape (\<lambda>q. 0 < (h ! a) q) (disk 10) p \<longrightarrow> 0 < (h ! a) p)
            \<and> (\<forall>p. binary_erosion lib im_shape (\<lambda>q. 0 < (h ! a) q) (disk 5) p \<longrightarrow> 0 < (h ! a) p)
            \<and> (\<forall>p. closing lib im_shape (\<lambda>q. 0 < (h ! a) q) (disk 2) p \<longrightarrow> 0 < (h ! a) p)
            \<longrightarrow> (\<forall>p. im_divided p = 0)"
    using h r all_zero [of a h lib im_shape h' im_divided] by blast
  ultimately show "\<exists>h' im_divided.
        fill_gaps_between_cells lib im_shape h a = Inr (h', im_divided)
        \<and> (\<forall>p. (h ! a) p \<noteq> 0 \<and> (h ! a) p \<noteq> 255 \<longrightarrow> im_divided p = 0)
        \<and> ((\<forall>p. (h ! a) p \<noteq> 255)
            \<and> (\<forall>p. \<not> narrow_gap lib im_shape (h ! a) p)
            \<and> (\<forall>p. opening_op lib im_shape (\<lambda>q. 0 < (h ! a) q) (disk 10) p \<longrightarrow> 0 < (h ! a) p)
            \<and> (\<forall>p. binary_erosion lib im_shape (\<lambda>q. 0 < (h ! a) q) (disk 5) p \<longrightarrow> 0 < (h ! a) p)
            \<and> (\<forall>p. closing lib im_shape (\<lambda>q. 0 < (h ! a) q) (disk 2) p \<longrightarrow> 0 < (h ! a) p)
            \<longrightarrow> (\<forall>p. im_divided p = 0))"
    using r by blast
qed

theorem fill_gaps_correction_witness:
  "0 < length [two_cells] \<and> pixels (1, 24) \<noteq> []
   \<and> two_cells (0, 0) = 1 \<and> two_cells (0, 23) = 2 \<and> two_cells (0, 5) = 0
   \<and> expand_labels std_morphology (1, 24) two_cells 250 (0, 5) = 1
   \<and> (\<forall>p. two_cells p \<noteq> 255)
   \<and> (\<forall>p. \<not> narrow_gap std_morphology (1, 24) two_cells p)
   \<and> (\<exists>h' im_divided.
        fill_gaps_between_cells std_morphology (1, 24) [two_cells] 0 = Inr (h', im_divided)
        \<and> im_divided (0, 0) = 0 \<and> im_divided (0, 23) = 0 \<and> im_divided (0, 5) = 0
        \<and> (\<forall>p. im_divided p = 0))"
proof -
  let ?fg = "\<lambda>q. 0 < two_cells q"
  have a: "0 < length [two_cells] \<and> pixels (1, 24) \<noteq> []"
    using pixels_nonempty by (simp add: pixels_def)
  have c: "two_cells (0, 0) = 1" "two_cells (0, 23) = 2" "two_cells (0, 5) = 0"
    by (simp_all add: two_cells_def)
  have c0: "two_cells (0, 0) \<noteq> 0 \<and> two_cells (0, 0) \<noteq> 255"
    and c23: "two_cells (0, 23) \<noteq> 0 \<and> two_cells (0, 23) \<noteq> 255"
    by (simp_all add: two_cells_def)
  have x: "expand_labels std_morphology (1, 24) two_cells 250 (0, 5) = 1"
    using two_cells_expand [OF refl] by (simp add: std_morphology_def)
  have ns: "\<forall>p. two_cells p \<noteq> 255"
    by (simp add: two_cells_def)
  have ng: "\<forall>p. \<not> narrow_gap std_morphology (1, 24) two_cells p"
    using two_cells_no_gap_sh [OF refl] by blast
  have h1: "\<forall>p. opening_op std_morphology (1, 24) ?fg (disk 10) p \<longrightarrow> 0 < two_cells p"
    using std_opening_sub [of "(1, 24)" ?fg "disk 10"] by (simp add: std_morphology_def)
  have h2: "\<forall>p. binary_erosion std_morphology (1, 24) ?fg (disk 5) p \<longrightarrow> 0 < two_cells p"
    using std_erosion_sub [of "(1, 24)" ?fg 5] by (simp add: std_morphology_def)
  have h3: "\<forall>p. closing std_morphology (1, 24) ?fg (disk 2) p \<longrightarrow> 0 < two_cells p"
    using two_cells_closing_sh [OF refl] by (simp add: std_morphology_def)
  note t = fill_gaps_correction [of 0 "[two_cells]" "(1, 24)" std_morphology,
      unfolded nth_Cons_0, THEN mp, OF a]
  from t obtain h' im_divided where
    r: "fill_gaps_between_cells std_morphology (1, 24) [two_cells] 0 = Inr (h', im_divided)"
    and cl: "\<forall>p. two_cells p \<noteq> 0 \<and> two_cells p \<noteq> 255 \<longrightarrow> im_divided p = 0"
    and az: "(\<forall>p. two_cells p \<noteq> 255)
            \<and> (\<forall>p. \<not> narrow_gap std_morphology (1, 24) two_cells p)
            \<and> (\<forall>p. opening_op std_morphology (1, 24) ?fg (disk 10) p \<longrightarrow> 0 < two_cells p)
            \<and> (\<forall>p. binary_erosion std_morphology (1, 24) ?fg (disk 5) p \<longrightarrow> 0 < two_cells p)
            \<and> (\<forall>p. closing std_morphology (1, 24) ?fg (disk 2) p \<longrightarrow> 0 < two_cells p)
            \<longrightarrow> (\<forall>p. im_divided p = 0)"
    by (elim exE conjE)
  have z: "\<forall>p. im_divided p = 0"
    by (rule az [THEN mp]) (intro conjI ns ng h1 h2 h3)
  have z0: "im_divided (0, 0) = 0"
    by (rule cl [rule_format, of "(0, 0)", OF c0])
  have z23: "im_divided (0, 23) = 0"
    by (rule cl [rule_format, of "(0, 23)", OF c23])
  have z5: "im_divided (0, 5) = 0"
    by (rule z [rule_format])
  from r z0 z23 z5 z have "\<exists>h' im_divided.
        fill_gaps_between_cells std_morphology (1, 24) [two_cells] 0 = Inr (h', im_divided)
        \<and> im_divided (0, 0) = 0 \<and> im_divided (0, 23) = 0 \<and> im_divided (0, 5) = 0
        \<and> (\<forall>p. im_divided p = 0)"
    by (intro exI conjI)
  then show ?thesis
    by (intro conjI a [THEN conjunct1] a [THEN conjunct2] c x ns ng)
qed

subsection \<open>Effects on the arguments\<close>


end
